theory Spec2Isabelle
  imports Main
begin

section \<open>Decision trees of the self-healing engine\<close>

text \<open>
  Source: the self-healing engine (second module of \<^verbatim>\<open>src/durable-objects/index.js\<close>).
  The enumerations \<^verbatim>\<open>IssueType\<close>, \<^verbatim>\<open>Severity\<close> and \<^verbatim>\<open>HealingAction\<close> are
  closed tables of string or number constants there; they are datatypes and constants here.
\<close>

datatype IssueType =
  JOB_FAILURE | CRON_FAILURE | SYNC_FAILURE | DEAD_LETTER
  | HEALTH_DEGRADATION | COHESION_DRIFT | RATE_LIMIT | API_ERROR

datatype HealingAction = RETRY | SKIP | ESCALATE | ROLLBACK | RESET | NOTIFY | LEARN

definition Severity_LOW :: nat where "Severity_LOW = 1"
definition Severity_MEDIUM :: nat where "Severity_MEDIUM = 2"
definition Severity_CRITICAL :: nat where "Severity_CRITICAL = 4"

text \<open>
  A JavaScript number that is either a non-negative integer or \<^verbatim>\<open>NaN\<close>
  (\<^verbatim>\<open>Math.pow(2, undefined)\<close>). Counters in this program start at 0 and are only
  incremented, so \<^typ>\<open>nat\<close> is their type.
\<close>

datatype jsnum = Num nat | NaN

text \<open>
  The context object handed to the predicates. Only the properties that the predicates and
  the action executors read are fields; a property that the object does not carry
  (\<^verbatim>\<open>undefined\<close>) is \<^const>\<open>None\<close>.
\<close>

record Context =
  ctx_attempts :: "nat option"
  ctx_severity :: "nat option"
  ctx_consecutiveFailures :: "nat option"
  ctx_error :: "string option"
  ctx_driftScore :: "nat option"
  ctx_jobId :: "string option"

text \<open>
  The object an action producer resolves to: \<^verbatim>\<open>{ success, action, message, delay }\<close>, or
  \<^verbatim>\<open>{ success: false, error }\<close> after a throw, or the literal
  \<^verbatim>\<open>{ action, message }\<close> that \<^verbatim>\<open>handleIssue\<close> returns by default.
\<close>

record ActionResult =
  success :: "bool option"
  action :: "HealingAction option"
  message :: "string option"
  delay :: "jsnum option"
  error :: "string option"

record EvalResult =
  matched :: bool
  result :: "ActionResult option"

text \<open>
  \<^verbatim>\<open>class DecisionNode\<close>. An action either resolves to an object (\<^const>\<open>Inr\<close>) or throws
  an error with a message (\<^const>\<open>Inl\<close>).
\<close>

datatype DecisionNode =
  DecisionNode (name: string) (condition: "Context \<Rightarrow> bool")
    (node_action: "(Context \<Rightarrow> string + ActionResult) option")
    (children: "DecisionNode list") (fallback: "DecisionNode option")

text \<open>The constructor: an absent condition is \<^verbatim>\<open>() => true\<close>.\<close>

definition newDecisionNode ::
  "string \<Rightarrow> (Context \<Rightarrow> bool) option \<Rightarrow> (Context \<Rightarrow> string + ActionResult) option
    \<Rightarrow> DecisionNode list \<Rightarrow> DecisionNode option \<Rightarrow> DecisionNode" where
  "newDecisionNode nm cond act ch fb =
     DecisionNode nm (case cond of Some c \<Rightarrow> c | None \<Rightarrow> (\<lambda>_. True)) act ch fb"

text \<open>The object built in the \<^verbatim>\<open>catch\<close> clause of \<^verbatim>\<open>evaluate\<close>.\<close>

definition thrown :: "string \<Rightarrow> ActionResult" where
  "thrown msg =
     \<lparr>success = Some False, action = None, message = None, delay = None, error = Some msg\<rparr>"

text \<open>
  The \<^verbatim>\<open>try\<close> block of \<^verbatim>\<open>evaluate\<close> (lines 731-741): the value of the local
  \<^verbatim>\<open>result\<close> after it. It stays \<^verbatim>\<open>null\<close> when the node has no action; it is the
  action's object when the action resolves, and the \<^verbatim>\<open>catch\<close> object when it throws.
\<close>

definition runAction ::
  "(Context \<Rightarrow> string + ActionResult) option \<Rightarrow> Context \<Rightarrow> ActionResult option" where
  "runAction act ctx =
     (case act of
        None \<Rightarrow> None
      | Some a \<Rightarrow> Some (case a ctx of Inr res \<Rightarrow> res | Inl msg \<Rightarrow> thrown msg))"

text \<open>\<^verbatim>\<open>result.success\<close> is truthy.\<close>

definition succeeded :: "ActionResult option \<Rightarrow> bool" where
  "succeeded r = (case r of Some res \<Rightarrow> success res = Some True | None \<Rightarrow> False)"

text \<open>
  \<^verbatim>\<open>DecisionNode.evaluate\<close> (lines 724-757). The final
  \<^verbatim>\<open>{ matched: !!result, result }\<close> is kept as written.
\<close>

fun evaluate :: "DecisionNode \<Rightarrow> Context \<Rightarrow> EvalResult"
  and evaluate_children :: "DecisionNode list \<Rightarrow> Context \<Rightarrow> EvalResult option" where
  "evaluate (DecisionNode n cond act ch fb) ctx =
     (if \<not> cond ctx then \<lparr>matched = False, result = None\<rparr>
      else if succeeded (runAction act ctx)
      then \<lparr>matched = True, result = runAction act ctx\<rparr>
      else (case evaluate_children ch ctx of
              Some childResult \<Rightarrow> childResult
            | None \<Rightarrow>
                (case fb of
                   Some f \<Rightarrow> evaluate f ctx
                 | None \<Rightarrow> \<lparr>matched = (runAction act ctx \<noteq> None),
                             result = runAction act ctx\<rparr>)))"
| "evaluate_children [] ctx = None"
| "evaluate_children (c # cs) ctx =
     (let childResult = evaluate c ctx
      in if matched childResult then Some childResult else evaluate_children cs ctx)"

subsection \<open>JavaScript operators used by the predicates\<close>

text \<open>\<^verbatim>\<open>x < n\<close> and \<^verbatim>\<open>x >= n\<close> are both false when \<^verbatim>\<open>x\<close> is \<^verbatim>\<open>undefined\<close>.\<close>

definition js_lt :: "nat option \<Rightarrow> nat \<Rightarrow> bool" where
  "js_lt x n = (case x of None \<Rightarrow> False | Some v \<Rightarrow> v < n)"

definition js_ge :: "nat option \<Rightarrow> nat \<Rightarrow> bool" where
  "js_ge x n = (case x of None \<Rightarrow> False | Some v \<Rightarrow> v \<ge> n)"

text \<open>\<^verbatim>\<open>String.prototype.includes\<close>: the pattern occurs as a contiguous substring.\<close>

fun str_includes :: "string \<Rightarrow> string \<Rightarrow> bool" where
  "str_includes [] p = (p = [])"
| "str_includes (c # cs) p = (take (length p) (c # cs) = p \<or> str_includes cs p)"

text \<open>\<^verbatim>\<open>ctx.error?.includes(p)\<close>: \<^verbatim>\<open>undefined\<close>, hence falsy, without an error text.\<close>

definition error_includes :: "Context \<Rightarrow> string \<Rightarrow> bool" where
  "error_includes ctx p = (case ctx_error ctx of None \<Rightarrow> False | Some e \<Rightarrow> str_includes e p)"

text \<open>\<^verbatim>\<open>Math.pow(2, ctx.attempts) * 1000\<close>.\<close>

definition pow2_ms :: "nat option \<Rightarrow> jsnum" where
  "pow2_ms x = (case x of None \<Rightarrow> NaN | Some a \<Rightarrow> Num (2 ^ a * 1000))"

definition reply :: "HealingAction \<Rightarrow> string \<Rightarrow> jsnum option \<Rightarrow> string + ActionResult" where
  "reply act msg d =
     Inr \<lparr>success = Some True, action = Some act, message = Some msg, delay = d, error = None\<rparr>"

subsection \<open>The standard trees (\<^verbatim>\<open>_buildDecisionTrees\<close>, lines 780-901)\<close>

definition job_failure_tree :: DecisionNode where
  "job_failure_tree =
     newDecisionNode ''job_failure_handler'' None None
       [newDecisionNode ''transient_error''
          (Some (\<lambda>ctx. js_lt (ctx_attempts ctx) 3))
          (Some (\<lambda>ctx. reply RETRY ''Scheduling retry'' (Some (pow2_ms (ctx_attempts ctx)))))
          [] None,
        newDecisionNode ''persistent_error''
          (Some (\<lambda>ctx. js_ge (ctx_attempts ctx) 3 \<and> js_lt (ctx_severity ctx) Severity_CRITICAL))
          (Some (\<lambda>ctx. reply SKIP ''Skipping after max retries, creating learning'' None))
          [] None]
       (Some (newDecisionNode ''escalate'' None
          (Some (\<lambda>ctx. reply ESCALATE ''Escalating to human attention'' None)) [] None))"

definition cron_failure_tree :: DecisionNode where
  "cron_failure_tree =
     newDecisionNode ''cron_failure_handler'' None None
       [newDecisionNode ''temporary_issue''
          (Some (\<lambda>ctx. js_lt (ctx_consecutiveFailures ctx) 3))
          (Some (\<lambda>ctx. reply LEARN ''Logging failure for pattern analysis'' None))
          [] None,
        newDecisionNode ''systematic_issue''
          (Some (\<lambda>ctx. js_ge (ctx_consecutiveFailures ctx) 3))
          (Some (\<lambda>ctx. reply ESCALATE ''Multiple consecutive failures - needs investigation'' None))
          [] None]
       None"

definition sync_failure_tree :: DecisionNode where
  "sync_failure_tree =
     newDecisionNode ''sync_failure_handler'' None None
       [newDecisionNode ''rate_limited''
          (Some (\<lambda>ctx. error_includes ctx ''rate limit''))
          (Some (\<lambda>ctx. reply RETRY ''Rate limited - backing off'' (Some (Num 60000))))
          [] None,
        newDecisionNode ''network_error''
          (Some (\<lambda>ctx. error_includes ctx ''network'' \<or> error_includes ctx ''timeout''))
          (Some (\<lambda>ctx. reply RETRY ''Network error - retrying with backoff'' (Some (Num 5000))))
          [] None,
        newDecisionNode ''auth_error''
          (Some (\<lambda>ctx. error_includes ctx ''401'' \<or> error_includes ctx ''403''))
          (Some (\<lambda>ctx. reply ESCALATE ''Authentication error - needs manual intervention'' None))
          [] None]
       (Some (newDecisionNode ''unknown_sync_error'' None
          (Some (\<lambda>ctx. reply LEARN ''Unknown error - learning for future'' None)) [] None))"

definition cohesion_drift_tree :: DecisionNode where
  "cohesion_drift_tree =
     newDecisionNode ''cohesion_drift_handler'' None None
       [newDecisionNode ''minor_drift''
          (Some (\<lambda>ctx. js_lt (ctx_driftScore ctx) 20))
          (Some (\<lambda>ctx. reply NOTIFY ''Minor cohesion drift detected'' None))
          [] None,
        newDecisionNode ''significant_drift''
          (Some (\<lambda>ctx. js_ge (ctx_driftScore ctx) 20 \<and> js_lt (ctx_driftScore ctx) 50))
          (Some (\<lambda>ctx. reply LEARN ''Significant drift - creating recommendations'' None))
          [] None,
        newDecisionNode ''critical_drift''
          (Some (\<lambda>ctx. js_ge (ctx_driftScore ctx) 50))
          (Some (\<lambda>ctx. reply ESCALATE ''Critical cohesion drift - immediate attention needed'' None))
          [] None]
       None"

text \<open>\<^verbatim>\<open>this.decisionTrees[issue.type]\<close> after the constructor has run.\<close>

fun decisionTrees :: "IssueType \<Rightarrow> DecisionNode option" where
  "decisionTrees JOB_FAILURE = Some job_failure_tree"
| "decisionTrees CRON_FAILURE = Some cron_failure_tree"
| "decisionTrees SYNC_FAILURE = Some sync_failure_tree"
| "decisionTrees COHESION_DRIFT = Some cohesion_drift_tree"
| "decisionTrees _ = None"


definition sync_ctx :: "string option \<Rightarrow> Context" where
  "sync_ctx e =
     \<lparr>ctx_attempts = None, ctx_severity = None, ctx_consecutiveFailures = None, ctx_error = e,
      ctx_driftScore = None, ctx_jobId = None\<rparr>"

section \<open>The self-healing engine\<close>

text \<open>
  \<^verbatim>\<open>new Date()\<close>, \<^verbatim>\<open>Date.now()\<close> and the random part of \<^verbatim>\<open>generateId\<close> are inputs
  of every operation: \<open>now\<close> is the clock reading (milliseconds), \<open>nonce\<close> the
  timestamp-and-random suffix that \<^verbatim>\<open>generateId\<close> appends to its prefix.
\<close>

record Ambient =
  now :: nat
  nonce :: string

definition generateId :: "string \<Rightarrow> Ambient \<Rightarrow> string" where
  "generateId prefix amb = prefix @ ''_'' @ nonce amb"

text \<open>
  The issue object. \<^verbatim>\<open>handleIssue\<close> and the executors copy it with the spread operator
  and add properties; the properties they add are optional fields here. \<open>escalated\<close> is a
  property that the engine neither reads nor writes: an issue object carries it or not,
  and the spread copies it.
\<close>

record Issue =
  issue_id :: string
  issue_type :: IssueType
  issue_severity :: nat
  issue_description :: string
  issue_context :: Context
  detectedAt :: "nat option"
  resolved :: "bool option"
  resolvedAt :: "nat option"
  resolution :: "string option"
  retryScheduledAt :: "nat option"
  retryDelay :: "jsnum option"
  escalated :: "bool option"

text \<open>
  What is stored under \<^verbatim>\<open>issue:<id>\<close>: an issue document, or the object
  \<^verbatim>\<open>{ resolved: true, resolvedAt, resolution }\<close> that \<^verbatim>\<open>_markResolved\<close> writes when
  the key holds no document (\<^verbatim>\<open>{ ...null, ... }\<close>).
\<close>

datatype StoredIssue = IssueJSON Issue | ResolutionJSON nat string

record Escalation =
  esc_issueId :: string
  esc_type :: IssueType
  esc_severity :: nat
  esc_description :: string
  esc_context :: Context
  escalatedAt :: nat

record Learning =
  learning_id :: string
  learning_issueType :: IssueType
  learning_outcome :: string
  learning_context :: Context
  learning_createdAt :: nat

record LogEntry =
  log_timestamp :: nat
  log_level :: string
  log_event :: string

datatype JobStatus = PENDING | RUNNING | COMPLETED | FAILED | CANCELLED | HEALING | ESCALATED

text \<open>The job document of \<^verbatim>\<open>JobScheduler\<close> (\<^verbatim>\<open>src/jobs/scheduler.js\<close>).\<close>

record QueuedJob =
  qj_id :: string
  qj_type :: string
  qj_status :: JobStatus
  qj_priority :: nat
  qj_payload :: "(string \<times> string) list"
  qj_createdAt :: nat
  qj_updatedAt :: nat
  qj_attempts :: nat
  qj_maxAttempts :: nat
  qj_result :: "string option"
  qj_error :: "string option"

text \<open>
  The bindings of \<^verbatim>\<open>env\<close>. \<^verbatim>\<open>AGENT_STATE\<close> is one key-value namespace whose keys
  start with a literal prefix (\<^verbatim>\<open>issue:\<close>, \<^verbatim>\<open>escalation:\<close>, \<^verbatim>\<open>log:\<close>); keys under
  different prefixes never coincide, so each prefix is a map of its own, keyed by what
  follows the prefix (for a log entry: the clock reading and the event name).
\<close>

record Env =
  issue_kv :: "string \<rightharpoonup> StoredIssue"
  escalation_kv :: "string \<rightharpoonup> Escalation"
  log_kv :: "(nat \<times> string) \<rightharpoonup> LogEntry"
  JOB_QUEUE :: "string \<rightharpoonup> QueuedJob"
  LEARNING_MEMORY :: "string \<rightharpoonup> Learning"

record Stats =
  issuesDetected :: nat
  issuesResolved :: nat
  escalations :: nat
  learnings :: nat

record SelfHealingEngine =
  env :: Env
  stats :: Stats

text \<open>\<^verbatim>\<open>logEvent\<close> (\<^verbatim>\<open>src/utils/helpers.js\<close>); the payload of the entry is not modelled.\<close>

definition logEvent :: "Env \<Rightarrow> nat \<Rightarrow> string \<Rightarrow> string \<Rightarrow> Env" where
  "logEvent e t level event =
     e\<lparr>log_kv := (log_kv e)((t, event) \<mapsto>
          \<lparr>log_timestamp = t, log_level = level, log_event = event\<rparr>)\<rparr>"

text \<open>\<^verbatim>\<open>x || d\<close> on a number: \<^verbatim>\<open>undefined\<close> and \<^verbatim>\<open>0\<close> give the default.\<close>

definition or_default :: "nat option \<Rightarrow> nat \<Rightarrow> nat" where
  "or_default x d = (case x of None \<Rightarrow> d | Some v \<Rightarrow> if v = 0 then d else v)"

text \<open>\<^verbatim>\<open>JobScheduler.createJob\<close> (lines 55-74 of the scheduler).\<close>

definition createJob ::
  "Env \<Rightarrow> Ambient \<Rightarrow> string \<Rightarrow> (string \<times> string) list \<Rightarrow> nat option \<Rightarrow> nat option
    \<Rightarrow> QueuedJob \<times> Env" where
  "createJob e amb ty payload priority maxAttempts =
     (let job = \<lparr>qj_id = generateId ''job'' amb,
                 qj_type = (if ty = [] then ''custom'' else ty),
                 qj_status = PENDING,
                 qj_priority = or_default priority 5,
                 qj_payload = payload,
                 qj_createdAt = now amb, qj_updatedAt = now amb,
                 qj_attempts = 0,
                 qj_maxAttempts = or_default maxAttempts 3,
                 qj_result = None, qj_error = None\<rparr>;
          e1 = e\<lparr>JOB_QUEUE := (JOB_QUEUE e)(qj_id job \<mapsto> job)\<rparr>
      in (job, logEvent e1 (now amb) ''info'' ''job_created''))"

fun issueTypeName :: "IssueType \<Rightarrow> string" where
  "issueTypeName JOB_FAILURE = ''job_failure''"
| "issueTypeName CRON_FAILURE = ''cron_failure''"
| "issueTypeName SYNC_FAILURE = ''sync_failure''"
| "issueTypeName DEAD_LETTER = ''dead_letter''"
| "issueTypeName HEALTH_DEGRADATION = ''health_degradation''"
| "issueTypeName COHESION_DRIFT = ''cohesion_drift''"
| "issueTypeName RATE_LIMIT = ''rate_limit''"
| "issueTypeName API_ERROR = ''api_error''"

text \<open>\<^verbatim>\<open>_scheduleRetry(issue, delay = 5000)\<close> (lines 1165-1182).\<close>

definition scheduleRetry :: "Env \<Rightarrow> Issue \<Rightarrow> jsnum option \<Rightarrow> Ambient \<Rightarrow> Env" where
  "scheduleRetry e issue d amb =
     (let e1 = snd (createJob e amb ''retry_issue''
                 [(''issueId'', issue_id issue),
                  (''originalType'', issueTypeName (issue_type issue))] (Some 8) None)
      in e1\<lparr>issue_kv := (issue_kv e1)(issue_id issue \<mapsto>
             IssueJSON (issue\<lparr>retryScheduledAt := Some (now amb),
                               retryDelay := Some (case d of None \<Rightarrow> Num 5000 | Some v \<Rightarrow> v)\<rparr>))\<rparr>)"

text \<open>\<^verbatim>\<open>_markResolved\<close> (lines 1187-1196): read the stored document, write it back resolved.\<close>

definition markResolved :: "Env \<Rightarrow> Issue \<Rightarrow> string \<Rightarrow> Ambient \<Rightarrow> Env" where
  "markResolved e issue res amb =
     e\<lparr>issue_kv := (issue_kv e)(issue_id issue \<mapsto>
          (case issue_kv e (issue_id issue) of
             Some (IssueJSON stored) \<Rightarrow>
               IssueJSON (stored\<lparr>resolved := Some True, resolvedAt := Some (now amb),
                                 resolution := Some res\<rparr>)
           | _ \<Rightarrow> ResolutionJSON (now amb) res))\<rparr>"

text \<open>\<^verbatim>\<open>_createLearning\<close> (lines 1201-1216).\<close>

definition createLearning :: "Env \<Rightarrow> Issue \<Rightarrow> string \<Rightarrow> Ambient \<Rightarrow> Env" where
  "createLearning e issue outcome amb =
     (let learning = \<lparr>learning_id = generateId ''learning'' amb,
                      learning_issueType = issue_type issue,
                      learning_outcome = outcome,
                      learning_context = issue_context issue,
                      learning_createdAt = now amb\<rparr>;
          e1 = e\<lparr>LEARNING_MEMORY := (LEARNING_MEMORY e)(learning_id learning \<mapsto> learning)\<rparr>
      in logEvent e1 (now amb) ''info'' ''learning_created'')"

text \<open>
  \<^verbatim>\<open>_escalateIssue\<close> (lines 1221-1240): store the escalation, log it; the formatted
  message only goes to the console.
\<close>

definition engine_escalateIssue :: "Env \<Rightarrow> Issue \<Rightarrow> Ambient \<Rightarrow> Env" where
  "engine_escalateIssue e issue amb =
     (let escalation = \<lparr>esc_issueId = issue_id issue, esc_type = issue_type issue,
                        esc_severity = issue_severity issue,
                        esc_description = issue_description issue,
                        esc_context = issue_context issue, escalatedAt = now amb\<rparr>;
          e1 = e\<lparr>escalation_kv := (escalation_kv e)(issue_id issue \<mapsto> escalation)\<rparr>
      in logEvent e1 (now amb) ''warn'' ''issue_escalated'')"

definition notify :: "Env \<Rightarrow> Issue \<Rightarrow> Ambient \<Rightarrow> Env" where
  "notify e issue amb = logEvent e (now amb) ''info'' ''notification''"

text \<open>\<^verbatim>\<open>_resetState\<close> (lines 1287-1294); an empty \<^verbatim>\<open>jobId\<close> is falsy.\<close>

definition resetState :: "Env \<Rightarrow> Issue \<Rightarrow> Ambient \<Rightarrow> Env" where
  "resetState e issue amb =
     (let e1 = (case ctx_jobId (issue_context issue) of
                  Some j \<Rightarrow> if issue_type issue = JOB_FAILURE \<and> j \<noteq> []
                            then e\<lparr>JOB_QUEUE := (JOB_QUEUE e)(j := None)\<rparr> else e
                | None \<Rightarrow> e)
      in markResolved e1 issue ''State reset'' amb)"

text \<open>
  \<^verbatim>\<open>_executeAction\<close> (lines 1124-1160). The \<^verbatim>\<open>switch\<close> has no case for
  \<^verbatim>\<open>ROLLBACK\<close> and no default: such an action, and an object without \<^verbatim>\<open>action\<close>, only
  get the log entry.
\<close>

definition executeAction ::
  "SelfHealingEngine \<Rightarrow> Issue \<Rightarrow> ActionResult \<Rightarrow> Ambient \<Rightarrow> SelfHealingEngine" where
  "executeAction eng issue act amb =
     (let e0 = logEvent (env eng) (now amb) ''info'' ''healing_action''; s = stats eng
      in case action act of
           Some RETRY \<Rightarrow> eng\<lparr>env := scheduleRetry e0 issue (delay act) amb\<rparr>
         | Some SKIP \<Rightarrow>
             eng\<lparr>env := createLearning
                          (markResolved e0 issue ''Skipped after max attempts'' amb)
                          issue ''skipped'' amb,
                 stats := s\<lparr>issuesResolved := issuesResolved s + 1\<rparr>\<rparr>
         | Some ESCALATE \<Rightarrow>
             eng\<lparr>env := engine_escalateIssue e0 issue amb,
                 stats := s\<lparr>escalations := escalations s + 1\<rparr>\<rparr>
         | Some LEARN \<Rightarrow>
             eng\<lparr>env := createLearning e0 issue ''learned'' amb,
                 stats := s\<lparr>learnings := learnings s + 1\<rparr>\<rparr>
         | Some NOTIFY \<Rightarrow> eng\<lparr>env := notify e0 issue amb\<rparr>
         | Some RESET \<Rightarrow>
             eng\<lparr>env := resetState e0 issue amb,
                 stats := s\<lparr>issuesResolved := issuesResolved s + 1\<rparr>\<rparr>
         | _ \<Rightarrow> eng\<lparr>env := e0\<rparr>)"

text \<open>The two literal objects that \<^verbatim>\<open>handleIssue\<close> returns without executing anything.\<close>

definition no_tree_reply :: ActionResult where
  "no_tree_reply =
     \<lparr>success = None, action = Some ESCALATE,
      message = Some ''No decision tree for issue type'', delay = None, error = None\<rparr>"

definition no_match_reply :: ActionResult where
  "no_match_reply =
     \<lparr>success = None, action = Some ESCALATE,
      message = Some ''Decision tree did not match'', delay = None, error = None\<rparr>"

text \<open>
  \<^verbatim>\<open>handleIssue\<close> (lines 1082-1119), with the table of trees as a parameter:
  \<open>handleIssueWith\<close> is the method body, \<open>handleIssue\<close> the method of an engine whose
  constructor has built the standard trees.
\<close>

definition handleIssueWith ::
  "(IssueType \<Rightarrow> DecisionNode option) \<Rightarrow> SelfHealingEngine \<Rightarrow> Issue \<Rightarrow> Ambient
    \<Rightarrow> ActionResult \<times> SelfHealingEngine" where
  "handleIssueWith trees eng issue amb =
     (let s1 = (stats eng)\<lparr>issuesDetected := issuesDetected (stats eng) + 1\<rparr>;
          e1 = (env eng)\<lparr>issue_kv := (issue_kv (env eng))(issue_id issue \<mapsto>
                  IssueJSON (issue\<lparr>detectedAt := Some (now amb), resolved := Some False\<rparr>))\<rparr>;
          e2 = logEvent e1 (now amb) ''info'' ''issue_detected''
      in case trees (issue_type issue) of
           None \<Rightarrow>
             (no_tree_reply,
              eng\<lparr>env := logEvent e2 (now amb) ''warn'' ''no_decision_tree'', stats := s1\<rparr>)
         | Some tree \<Rightarrow>
             (let r = evaluate tree (issue_context issue)
              in case result r of
                   Some act \<Rightarrow>
                     if matched r
                     then (act, executeAction (eng\<lparr>env := e2, stats := s1\<rparr>) issue act amb)
                     else (no_match_reply, eng\<lparr>env := e2, stats := s1\<rparr>)
                 | None \<Rightarrow> (no_match_reply, eng\<lparr>env := e2, stats := s1\<rparr>)))"

definition handleIssue ::
  "SelfHealingEngine \<Rightarrow> Issue \<Rightarrow> Ambient \<Rightarrow> ActionResult \<times> SelfHealingEngine" where
  "handleIssue = handleIssueWith decisionTrees"

text \<open>
  \<^verbatim>\<open>handleDeadLetter\<close> (lines 1326-1338). The context it builds
  (\<^verbatim>\<open>messageId\<close>, \<^verbatim>\<open>body\<close>, \<^verbatim>\<open>retryCount\<close>) has none of the properties the predicates
  read. The action that \<^verbatim>\<open>handleIssue\<close> returns is dropped.
\<close>

definition empty_ctx :: Context where
  "empty_ctx =
     \<lparr>ctx_attempts = None, ctx_severity = None, ctx_consecutiveFailures = None,
      ctx_error = None, ctx_driftScore = None, ctx_jobId = None\<rparr>"

definition deadLetterIssue :: "string \<Rightarrow> Ambient \<Rightarrow> Issue" where
  "deadLetterIssue message_id amb =
     \<lparr>issue_id = generateId ''issue'' amb, issue_type = DEAD_LETTER,
      issue_severity = Severity_MEDIUM,
      issue_description = ''Dead letter message: '' @ message_id,
      issue_context = empty_ctx,
      detectedAt = None, resolved = None, resolvedAt = None, resolution = None,
      retryScheduledAt = None, retryDelay = None, escalated = None\<rparr>"

definition handleDeadLetter :: "SelfHealingEngine \<Rightarrow> string \<Rightarrow> Ambient \<Rightarrow> SelfHealingEngine" where
  "handleDeadLetter eng message_id amb = snd (handleIssue eng (deadLetterIssue message_id amb) amb)"

section \<open>The SelfHealer durable object\<close>

text \<open>
  \<^verbatim>\<open>class SelfHealer\<close> (first module of \<^verbatim>\<open>src/durable-objects/index.js\<close>, lines
  362-492). Its storage holds issue documents under \<^verbatim>\<open>issue:<id>\<close> and learning
  documents under \<^verbatim>\<open>learning:learning_<Date.now()>\<close>; the learning map is keyed by that
  clock reading. \<^verbatim>\<open>type\<close> and \<^verbatim>\<open>context\<close> come from the reporter and are opaque.
\<close>

record HealerIssue =
  hi_id :: string
  hi_type :: "string option"
  hi_context :: "string option"
  hi_reportedAt :: nat
  hi_resolved :: bool
  hi_escalated :: bool
  hi_attempts :: nat
  hi_resolvedAt :: "nat option"
  hi_resolution :: "string option"
  hi_resolvedBy :: "string option"
  hi_escalatedAt :: "nat option"
  hi_escalationReason :: "string option"

record HealerLearning =
  hl_id :: nat
  hl_issueType :: "string option"
  hl_outcome :: string
  hl_context :: "string option"
  hl_resolution :: "string option"
  hl_createdAt :: nat

record HealerStorage =
  healer_issues :: "string \<rightharpoonup> HealerIssue"
  healer_learnings :: "nat \<rightharpoonup> HealerLearning"
  lastHealingRun :: "nat option"

text \<open>\<^verbatim>\<open>Response.json(body, { status })\<close>; the body is a flat object of texts.\<close>

record Response =
  http_status :: nat
  body :: "(string \<times> string) list"

definition healer_createLearning :: "HealerStorage \<Rightarrow> HealerIssue \<Rightarrow> string \<Rightarrow> nat \<Rightarrow> HealerStorage" where
  "healer_createLearning st issue outcome t =
     st\<lparr>healer_learnings := (healer_learnings st)(t \<mapsto>
          \<lparr>hl_id = t, hl_issueType = hi_type issue, hl_outcome = outcome,
           hl_context = hi_context issue, hl_resolution = hi_resolution issue,
           hl_createdAt = t\<rparr>)\<rparr>"

text \<open>\<^verbatim>\<open>SelfHealer.reportIssue\<close> (lines 413-430).\<close>

definition reportIssue ::
  "HealerStorage \<Rightarrow> string option \<Rightarrow> string option \<Rightarrow> Ambient \<Rightarrow> Response \<times> HealerStorage" where
  "reportIssue st ty ctx amb =
     (let issueId = generateId ''issue'' amb;
          issue = \<lparr>hi_id = issueId, hi_type = ty, hi_context = ctx, hi_reportedAt = now amb,
                   hi_resolved = False, hi_escalated = False, hi_attempts = 0,
                   hi_resolvedAt = None, hi_resolution = None, hi_resolvedBy = None,
                   hi_escalatedAt = None, hi_escalationReason = None\<rparr>
      in (\<lparr>http_status = 200, body = [(''issueId'', issueId), (''status'', ''reported'')]\<rparr>,
          st\<lparr>healer_issues := (healer_issues st)(issueId \<mapsto> issue),
             lastHealingRun := Some (now amb)\<rparr>))"

text \<open>\<^verbatim>\<open>SelfHealer.resolveIssue\<close> (lines 432-451); an empty \<^verbatim>\<open>resolvedBy\<close> is falsy.\<close>

definition resolveIssue ::
  "HealerStorage \<Rightarrow> string \<Rightarrow> string option \<Rightarrow> string option \<Rightarrow> nat \<Rightarrow> Response \<times> HealerStorage" where
  "resolveIssue st issueId res resolvedBy t =
     (case healer_issues st issueId of
        None \<Rightarrow> (\<lparr>http_status = 404, body = [(''error'', ''Issue not found'')]\<rparr>, st)
      | Some issue \<Rightarrow>
          (let issue' = issue\<lparr>hi_resolved := True, hi_resolvedAt := Some t,
                              hi_resolution := res,
                              hi_resolvedBy := Some (case resolvedBy of
                                  None \<Rightarrow> ''auto'' | Some b \<Rightarrow> if b = [] then ''auto'' else b)\<rparr>;
               st1 = st\<lparr>healer_issues := (healer_issues st)(issueId \<mapsto> issue')\<rparr>
           in (\<lparr>http_status = 200, body = [(''ok'', ''true'')]\<rparr>,
               healer_createLearning st1 issue' ''resolved'' t)))"

text \<open>\<^verbatim>\<open>SelfHealer.escalateIssue\<close> (lines 453-471).\<close>

definition escalateIssue ::
  "HealerStorage \<Rightarrow> string \<Rightarrow> string option \<Rightarrow> nat \<Rightarrow> Response \<times> HealerStorage" where
  "escalateIssue st issueId reason t =
     (case healer_issues st issueId of
        None \<Rightarrow> (\<lparr>http_status = 404, body = [(''error'', ''Issue not found'')]\<rparr>, st)
      | Some issue \<Rightarrow>
          (let issue' = issue\<lparr>hi_escalated := True, hi_escalatedAt := Some t,
                              hi_escalationReason := reason\<rparr>;
               st1 = st\<lparr>healer_issues := (healer_issues st)(issueId \<mapsto> issue')\<rparr>
           in (\<lparr>http_status = 200, body = [(''ok'', ''true'')]\<rparr>,
               healer_createLearning st1 issue' ''escalated'' t)))"

section \<open>The JobOrchestrator durable object\<close>

text \<open>
  \<^verbatim>\<open>class JobOrchestrator\<close> (lines 499-660). The storage is listed in order by
  \<^verbatim>\<open>alarm\<close>, so the job documents are an association list keyed by job id (the text
  after \<^verbatim>\<open>job:\<close>); \<^verbatim>\<open>lastJobRun\<close> and the alarm time are fields.
\<close>

record Job =
  job_id :: string
  job_type :: "string option"
  job_payload :: "string option"
  job_priority :: nat
  job_status :: JobStatus
  scheduledFor :: nat
  job_createdAt :: nat
  job_attempts :: nat
  job_maxAttempts :: nat
  startedAt :: "nat option"
  cancelledAt :: "nat option"
  completedAt :: "nat option"
  job_result :: "bool option"
  job_error :: "string option"

record OrchestratorStorage =
  jobs :: "(string \<times> Job) list"
  lastJobRun :: "nat option"
  alarmAt :: "nat option"

text \<open>\<^verbatim>\<open>storage.put\<close>: replace the value of a key that exists, add the key otherwise.\<close>

fun storage_put :: "string \<Rightarrow> 'v \<Rightarrow> (string \<times> 'v) list \<Rightarrow> (string \<times> 'v) list" where
  "storage_put k v [] = [(k, v)]"
| "storage_put k v ((k', v') # kvs) =
     (if k = k' then (k, v) # kvs else (k', v') # storage_put k v kvs)"

definition storage_get :: "(string \<times> 'v) list \<Rightarrow> string \<Rightarrow> 'v option" where
  "storage_get kvs k = map_of kvs k"

text \<open>\<^verbatim>\<open>scheduleJob\<close> (lines 550-576).\<close>

definition scheduleJob ::
  "OrchestratorStorage \<Rightarrow> string option \<Rightarrow> string option \<Rightarrow> nat option \<Rightarrow> nat option
    \<Rightarrow> nat option \<Rightarrow> Ambient \<Rightarrow> Response \<times> OrchestratorStorage" where
  "scheduleJob st ty payload priority sched maxAttempts amb =
     (let jobId = generateId ''job'' amb;
          job = \<lparr>job_id = jobId, job_type = ty, job_payload = payload,
                 job_priority = or_default priority 5, job_status = PENDING,
                 scheduledFor = or_default sched (now amb), job_createdAt = now amb,
                 job_attempts = 0, job_maxAttempts = or_default maxAttempts 3,
                 startedAt = None, cancelledAt = None, completedAt = None,
                 job_result = None, job_error = None\<rparr>
      in (\<lparr>http_status = 200, body = [(''jobId'', jobId), (''status'', ''scheduled'')]\<rparr>,
          st\<lparr>jobs := storage_put jobId job (jobs st),
             alarmAt := Some (if or_default sched 0 = 0 \<or> or_default sched 0 \<le> now amb
                              then now amb + 100 else or_default sched 0)\<rparr>))"

text \<open>\<^verbatim>\<open>cancelJob\<close> (lines 578-595).\<close>

definition cancelJob :: "OrchestratorStorage \<Rightarrow> string \<Rightarrow> nat \<Rightarrow> Response \<times> OrchestratorStorage" where
  "cancelJob st jobId t =
     (case storage_get (jobs st) jobId of
        None \<Rightarrow> (\<lparr>http_status = 404, body = [(''error'', ''Job not found'')]\<rparr>, st)
      | Some job \<Rightarrow>
          if job_status job = RUNNING
          then (\<lparr>http_status = 400, body = [(''error'', ''Cannot cancel running job'')]\<rparr>, st)
          else (\<lparr>http_status = 200, body = [(''ok'', ''true'')]\<rparr>,
                st\<lparr>jobs := storage_put jobId
                         (job\<lparr>job_status := CANCELLED, cancelledAt := Some t\<rparr>) (jobs st)\<rparr>))"

text \<open>
  \<^verbatim>\<open>runJob\<close> (lines 597-614), up to its response; the execution it hands to
  \<^verbatim>\<open>waitUntil\<close> is \<open>executeJob\<close> below.
\<close>

definition runJob :: "OrchestratorStorage \<Rightarrow> string \<Rightarrow> nat \<Rightarrow> Response \<times> OrchestratorStorage" where
  "runJob st jobId t =
     (case storage_get (jobs st) jobId of
        None \<Rightarrow> (\<lparr>http_status = 404, body = [(''error'', ''Job not found'')]\<rparr>, st)
      | Some job \<Rightarrow>
          (\<lparr>http_status = 200, body = [(''status'', ''started'')]\<rparr>,
           st\<lparr>jobs := storage_put jobId
                    (job\<lparr>job_status := RUNNING, startedAt := Some t,
                         job_attempts := job_attempts job + 1\<rparr>) (jobs st)\<rparr>))"

text \<open>
  \<^verbatim>\<open>executeJob\<close> (lines 616-634). The work is a one-second wait; \<open>failure\<close> is the message
  of an error thrown inside the \<^verbatim>\<open>try\<close> block, \<^const>\<open>None\<close> when the wait returns.
\<close>

definition executeJob ::
  "OrchestratorStorage \<Rightarrow> string \<Rightarrow> string option \<Rightarrow> nat \<Rightarrow> OrchestratorStorage" where
  "executeJob st jobId failure t =
     (case storage_get (jobs st) jobId of
        None \<Rightarrow> st
      | Some job \<Rightarrow>
          (let job' = (case failure of
                         None \<Rightarrow> job\<lparr>job_status := COMPLETED, completedAt := Some t,
                                      job_result := Some True\<rparr>
                       | Some msg \<Rightarrow>
                           job\<lparr>job_status := (if job_attempts job \<ge> job_maxAttempts job
                                                then FAILED else PENDING),
                               job_error := Some msg\<rparr>)
           in st\<lparr>jobs := storage_put jobId job' (jobs st), lastJobRun := Some t\<rparr>))"

text \<open>The test of \<^verbatim>\<open>alarm\<close> (line 655) that selects a listed job for execution.\<close>

definition alarm_due :: "nat \<Rightarrow> Job \<Rightarrow> bool" where
  "alarm_due t job = (job_status job = PENDING \<and> scheduledFor job \<le> t)"

text \<open>
  \<^verbatim>\<open>alarm\<close> (lines 651-659): one pass over the listing taken at the start; the test reads
  the listed document, \<^verbatim>\<open>executeJob\<close> reads the storage again by \<^verbatim>\<open>job.id\<close>.
\<close>

definition alarm :: "OrchestratorStorage \<Rightarrow> nat \<Rightarrow> OrchestratorStorage" where
  "alarm st t =
     fold (\<lambda>(key, job) s. if alarm_due t job then executeJob s (job_id job) None t else s)
       (jobs st) st"

section \<open>The worker's job API and the scheduler\<close>

text \<open>
  \<^verbatim>\<open>cancelJob\<close> of the worker entry point (\<^verbatim>\<open>DELETE /api/jobs/:id\<close>, unnamed part 2,
  lines 282-285): delete the key, answer \<^verbatim>\<open>cancelled\<close>.
\<close>

definition worker_cancelJob :: "Env \<Rightarrow> string \<Rightarrow> Response \<times> Env" where
  "worker_cancelJob e jobId =
     (\<lparr>http_status = 200, body = [(''status'', ''cancelled''), (''jobId'', jobId)]\<rparr>,
      e\<lparr>JOB_QUEUE := (JOB_QUEUE e)(jobId := None)\<rparr>)"

text \<open>
  \<^verbatim>\<open>JobScheduler.updateJob\<close> (lines 79-93 of the scheduler): \<^const>\<open>Inl\<close> is the thrown
  \<^verbatim>\<open>Job not found\<close>; \<open>updates\<close> is the object spread over the stored document.
\<close>

definition updateJob ::
  "Env \<Rightarrow> string \<Rightarrow> (QueuedJob \<Rightarrow> QueuedJob) \<Rightarrow> nat \<Rightarrow> string + QueuedJob \<times> Env" where
  "updateJob e jobId updates t =
     (case JOB_QUEUE e jobId of
        None \<Rightarrow> Inl (''Job not found: '' @ jobId)
      | Some job \<Rightarrow>
          (let updatedJob = (updates job)\<lparr>qj_updatedAt := t\<rparr>
           in Inr (updatedJob, e\<lparr>JOB_QUEUE := (JOB_QUEUE e)(jobId \<mapsto> updatedJob)\<rparr>)))"

text \<open>
  The \<^verbatim>\<open>catch\<close> clause of \<^verbatim>\<open>processQueuedJob\<close> (lines 136-142). \<open>job\<close> is the local
  object parsed from the message, which the method never changes.
\<close>

definition processQueuedJob_catch ::
  "Env \<Rightarrow> QueuedJob \<Rightarrow> string \<Rightarrow> nat \<Rightarrow> (string + string) \<times> Env" where
  "processQueuedJob_catch e job msg t =
     (case updateJob e (qj_id job)
             (\<lambda>j. j\<lparr>qj_status := (if qj_attempts job \<ge> qj_maxAttempts job
                                   then FAILED else PENDING),
                    qj_error := Some msg\<rparr>) t of
        Inl err \<Rightarrow> (Inl err, e)
      | Inr (_, e') \<Rightarrow> (Inl msg, e'))"

text \<open>
  \<^verbatim>\<open>JobScheduler.processQueuedJob\<close> (lines 127-143). \<open>work\<close> is what
  \<^verbatim>\<open>this.executeJob(job)\<close> does: it resolves to a result (\<^const>\<open>Inr\<close>) or throws
  (\<^const>\<open>Inl\<close>). The outcome is the returned result or the error that propagates.
\<close>

definition processQueuedJob ::
  "Env \<Rightarrow> QueuedJob \<Rightarrow> string + string \<Rightarrow> nat \<Rightarrow> (string + string) \<times> Env" where
  "processQueuedJob e job work t =
     (case updateJob e (qj_id job)
             (\<lambda>j. j\<lparr>qj_status := RUNNING, qj_attempts := qj_attempts job + 1\<rparr>) t of
        Inl err \<Rightarrow> (Inl err, e)
      | Inr (_, e1) \<Rightarrow>
          (case work of
             Inl msg \<Rightarrow> processQueuedJob_catch e1 job msg t
           | Inr res \<Rightarrow>
               (case updateJob e1 (qj_id job)
                       (\<lambda>j. j\<lparr>qj_status := COMPLETED, qj_result := Some res\<rparr>) t of
                  Inl err \<Rightarrow> processQueuedJob_catch e1 job err t
                | Inr (_, e2) \<Rightarrow> (Inr res, e2))))"

section \<open>The orchestrator worker's \<^verbatim>\<open>processJob\<close>\<close>

text \<open>
  \<^verbatim>\<open>processJob\<close> of the orchestrator worker (unnamed part 1, lines 358-435). The job
  object is mutated in place and saved after each change; a run returns the final object,
  the documents saved in order, the delays slept in order, and the result or the error that
  leaves the function. \<open>work k\<close> is what the type-specific work does in the execution that
  runs with \<open>attempts = k\<close>; \<open>healed\<close> is the truthiness of what \<^verbatim>\<open>attemptSelfHealing\<close>
  returns (it is called without the job object).
\<close>

record WorkerJob =
  wj_id :: string
  wj_type :: string
  wj_state :: JobStatus
  wj_attempts :: nat
  wj_maxAttempts :: nat
  wj_healingAttempts :: nat
  wj_startedAt :: "nat option"
  wj_completedAt :: "nat option"
  wj_result :: "string option"
  wj_lastError :: "string option"
  wj_escalatedAt :: "nat option"

record ProcessRun =
  run_outcome :: "string + string"
  run_job :: WorkerJob
  run_saved :: "WorkerJob list"
  run_sleeps :: "nat list"

function processJob :: "(nat \<Rightarrow> string + string) \<Rightarrow> bool \<Rightarrow> nat \<Rightarrow> WorkerJob \<Rightarrow> ProcessRun" where
  "processJob work healed t job =
     (let j1 = job\<lparr>wj_state := RUNNING, wj_startedAt := Some t,
                   wj_attempts := wj_attempts job + 1\<rparr>
      in case work (wj_attempts job + 1) of
           Inr res \<Rightarrow>
             (let j2 = j1\<lparr>wj_state := COMPLETED, wj_completedAt := Some t,
                          wj_result := Some res\<rparr>
              in \<lparr>run_outcome = Inr res, run_job = j2, run_saved = [j1, j2], run_sleeps = []\<rparr>)
         | Inl msg \<Rightarrow>
             if wj_attempts job + 1 < wj_maxAttempts job
             then (let j2 = j1\<lparr>wj_state := HEALING, wj_lastError := Some msg\<rparr>;
                       r = processJob work healed t j2
                   in r\<lparr>run_saved := j1 # j2 # run_saved r,
                        run_sleeps := (2 ^ (wj_attempts job + 1) * 1000) # run_sleeps r\<rparr>)
             else (let j2 = j1\<lparr>wj_state := HEALING,
                               wj_healingAttempts := wj_healingAttempts job + 1\<rparr>
                   in if healed
                      then \<lparr>run_outcome = Inl msg, run_job = j2, run_saved = [j1, j2],
                            run_sleeps = []\<rparr>
                      else (let j3 = j2\<lparr>wj_state := ESCALATED, wj_escalatedAt := Some t\<rparr>
                            in \<lparr>run_outcome = Inl msg, run_job = j3,
                                run_saved = [j1, j2, j3], run_sleeps = []\<rparr>)))"
  by pat_completeness auto
termination
  by (relation "measure (\<lambda>(work, healed, t, job). wj_maxAttempts job - wj_attempts job)") auto

section \<open>\<^verbatim>\<open>retryWithBackoff\<close>\<close>

text \<open>
  \<^verbatim>\<open>retryWithBackoff(fn, maxRetries = 4, baseDelay = 2000)\<close> (\<^verbatim>\<open>src/utils/helpers.js\<close>,
  lines 63-80). \<open>fn k\<close> is what the call of \<^verbatim>\<open>fn\<close> in iteration \<open>attempt = k\<close> does. The
  loop returns the value of the first call that resolves, or throws \<^verbatim>\<open>lastError\<close>
  (\<^verbatim>\<open>undefined\<close> when there was no iteration), together with the delays slept in order.
  Delays are exact integers here; the source computes them in floating point.
\<close>

function retryWithBackoff_loop ::
  "(nat \<Rightarrow> string + 'a) \<Rightarrow> nat \<Rightarrow> nat \<Rightarrow> nat \<Rightarrow> string option
    \<Rightarrow> (string option + 'a) \<times> nat list" where
  "retryWithBackoff_loop fn maxRetries baseDelay attempt lastError =
     (if attempt < maxRetries
      then (case fn attempt of
              Inr v \<Rightarrow> (Inr v, [])
            | Inl err \<Rightarrow>
                if attempt < maxRetries - 1
                then (let r = retryWithBackoff_loop fn maxRetries baseDelay (attempt + 1) (Some err)
                      in (fst r, (baseDelay * 2 ^ attempt) # snd r))
                else retryWithBackoff_loop fn maxRetries baseDelay (attempt + 1) (Some err))
      else (Inl lastError, []))"
  by pat_completeness auto
termination
  by (relation "measure (\<lambda>(fn, maxRetries, baseDelay, attempt, lastError). maxRetries - attempt)")
    auto

definition retryWithBackoff ::
  "(nat \<Rightarrow> string + 'a) \<Rightarrow> nat option \<Rightarrow> nat option \<Rightarrow> (string option + 'a) \<times> nat list" where
  "retryWithBackoff fn maxRetries baseDelay =
     retryWithBackoff_loop fn (case maxRetries of None \<Rightarrow> 4 | Some m \<Rightarrow> m)
       (case baseDelay of None \<Rightarrow> 2000 | Some b \<Rightarrow> b) 0 None"

text \<open>A matched evaluation whose action object reports success.\<close>

definition matched_with :: "HealingAction \<Rightarrow> string \<Rightarrow> jsnum option \<Rightarrow> EvalResult" where
  "matched_with act msg d =
     \<lparr>matched = True,
      result = Some \<lparr>success = Some True, action = Some act, message = Some msg, delay = d,
                     error = None\<rparr>\<rparr>"

section \<open>Theorems\<close>

subsection \<open>The job-failure tree\<close>




subsection \<open>The sync-failure tree\<close>

lemma sync_failure_eval:
  "evaluate sync_failure_tree ctx =
     (if error_includes ctx ''rate limit''
      then matched_with RETRY ''Rate limited - backing off'' (Some (Num 60000))
      else if error_includes ctx ''network'' \<or> error_includes ctx ''timeout''
      then matched_with RETRY ''Network error - retrying with backoff'' (Some (Num 5000))
      else if error_includes ctx ''401'' \<or> error_includes ctx ''403''
      then matched_with ESCALATE ''Authentication error - needs manual intervention'' None
      else matched_with LEARN ''Unknown error - learning for future'' None)"
  by (simp add: sync_failure_tree_def newDecisionNode_def reply_def matched_with_def
        runAction_def succeeded_def)

text \<open>
  Claim C5. For every context, evaluating the sync-failure tree gives, the cases being tried
  in the order in which the tree lists them (the first node whose predicate holds decides):
  RETRY with the fixed delay 60000 ms when the error text contains \<open>rate limit\<close>; RETRY with
  the fixed delay 5000 ms when it contains \<open>network\<close> or \<open>timeout\<close>; ESCALATE when it contains
  \<open>401\<close> or \<open>403\<close>; and the LEARN of the fallback node for any other error text, and for a
  context without error text. The four inputs of the specification are evaluated as well.
\<close>

theorem sync_failure_tree_decision:
  "(error_includes ctx ''rate limit'' \<longrightarrow>
      evaluate sync_failure_tree ctx =
        matched_with RETRY ''Rate limited - backing off'' (Some (Num 60000)))
   \<and> (\<not> error_includes ctx ''rate limit''
       \<and> (error_includes ctx ''network'' \<or> error_includes ctx ''timeout'') \<longrightarrow>
      evaluate sync_failure_tree ctx =
        matched_with RETRY ''Network error - retrying with backoff'' (Some (Num 5000)))
   \<and> (\<not> error_includes ctx ''rate limit''
       \<and> \<not> error_includes ctx ''network'' \<and> \<not> error_includes ctx ''timeout''
       \<and> (error_includes ctx ''401'' \<or> error_includes ctx ''403'') \<longrightarrow>
      evaluate sync_failure_tree ctx =
        matched_with ESCALATE ''Authentication error - needs manual intervention'' None)
   \<and> (\<not> error_includes ctx ''rate limit''
       \<and> \<not> error_includes ctx ''network'' \<and> \<not> error_includes ctx ''timeout''
       \<and> \<not> error_includes ctx ''401'' \<and> \<not> error_includes ctx ''403'' \<longrightarrow>
      evaluate sync_failure_tree ctx =
        matched_with LEARN ''Unknown error - learning for future'' None)
   \<and> evaluate sync_failure_tree (sync_ctx (Some ''rate limit exceeded'')) =
        matched_with RETRY ''Rate limited - backing off'' (Some (Num 60000))
   \<and> evaluate sync_failure_tree (sync_ctx (Some ''connection timeout'')) =
        matched_with RETRY ''Network error - retrying with backoff'' (Some (Num 5000))
   \<and> evaluate sync_failure_tree (sync_ctx (Some ''401 unauthorized'')) =
        matched_with ESCALATE ''Authentication error - needs manual intervention'' None
   \<and> evaluate sync_failure_tree (sync_ctx (Some ''disk full'')) =
        matched_with LEARN ''Unknown error - learning for future'' None"
  unfolding sync_failure_eval
  by (simp add: error_includes_def sync_ctx_def)

theorem sync_failure_tree_decision_witness:
  "evaluate sync_failure_tree (sync_ctx (Some ''API rate limit hit'')) =
     matched_with RETRY ''Rate limited - backing off'' (Some (Num 60000))
   \<and> evaluate sync_failure_tree (sync_ctx (Some ''network down'')) =
     matched_with RETRY ''Network error - retrying with backoff'' (Some (Num 5000))
   \<and> evaluate sync_failure_tree (sync_ctx (Some ''HTTP 403'')) =
     matched_with ESCALATE ''Authentication error - needs manual intervention'' None
   \<and> evaluate sync_failure_tree (sync_ctx None) =
     matched_with LEARN ''Unknown error - learning for future'' None"
  using sync_failure_tree_decision [of "sync_ctx (Some ''API rate limit hit'')"]
    sync_failure_tree_decision [of "sync_ctx (Some ''network down'')"]
    sync_failure_tree_decision [of "sync_ctx (Some ''HTTP 403'')"]
    sync_failure_tree_decision [of "sync_ctx None"]
  by (simp add: error_includes_def sync_ctx_def)


end
